theory Spec2Isabelle
  imports Complex_Main "HOL-Library.Word"
begin

section \<open>Python values the daemon and the reflector handle\<close>

text \<open>
  The shared-memory map, UDP payloads and the results of \<^verbatim>\<open>struct.pack\<close> are byte
  strings. Python integers are unbounded (\<^typ>\<open>int\<close>); the exceptions the two programs
  can meet are values of \<open>pyerror\<close>.
\<close>

type_synonym byte = "8 word"

datatype pyerror = StructError | ValueError | IndexError | TypeError | SocketError

section \<open>The \<^verbatim>\<open>struct\<close> module, as far as the sources use it\<close>

text \<open>
  A format string is a byte-order mark and a list of field codes. The sources use
  \<^verbatim>\<open>B\<close> (1 byte), \<^verbatim>\<open>H\<close> (2), \<^verbatim>\<open>I\<close> (4) and \<^verbatim>\<open>Q\<close> (8), all unsigned. With the mark
  \<^verbatim>\<open>!\<close> the fields are big-endian, of standard size and packed without alignment, so
  \<^verbatim>\<open>struct.calcsize\<close> is the sum of the field sizes. \<^verbatim>\<open>struct.pack\<close> raises
  \<^verbatim>\<open>struct.error\<close> when the number of arguments differs from the number of fields or an
  argument is out of its field's range; \<^verbatim>\<open>struct.unpack\<close> raises it when the buffer's
  length is not \<^verbatim>\<open>calcsize\<close>, and returns one value per field otherwise.
\<close>

datatype fcode = FmtB | FmtH | FmtI | FmtQ

datatype byteorder = BigEndian | LittleEndian

fun fsize :: "fcode \<Rightarrow> nat" where
  "fsize FmtB = 1"
| "fsize FmtH = 2"
| "fsize FmtI = 4"
| "fsize FmtQ = 8"

definition calcsize :: "fcode list \<Rightarrow> nat" where
  "calcsize fmt = sum_list (map fsize fmt)"

primrec be_bytes :: "nat \<Rightarrow> nat \<Rightarrow> byte list" where
  "be_bytes 0 v = []"
| "be_bytes (Suc n) v = be_bytes n (v div 256) @ [of_nat v]"

definition be_val :: "byte list \<Rightarrow> nat" where
  "be_val bs = foldl (\<lambda>a b. a * 256 + unat b) 0 bs"

definition enc :: "byteorder \<Rightarrow> nat \<Rightarrow> nat \<Rightarrow> byte list" where
  "enc bo n v = (case bo of BigEndian \<Rightarrow> be_bytes n v | LittleEndian \<Rightarrow> rev (be_bytes n v))"

definition dec :: "byteorder \<Rightarrow> byte list \<Rightarrow> nat" where
  "dec bo bs = (case bo of BigEndian \<Rightarrow> be_val bs | LittleEndian \<Rightarrow> be_val (rev bs))"

fun struct_pack :: "byteorder \<Rightarrow> fcode list \<Rightarrow> int list \<Rightarrow> pyerror + byte list" where
  "struct_pack bo [] [] = Inr []"
| "struct_pack bo (c # cs) (v # vs) =
     (if 0 \<le> v \<and> v < 256 ^ fsize c
      then (case struct_pack bo cs vs of
              Inl e \<Rightarrow> Inl e
            | Inr bs \<Rightarrow> Inr (enc bo (fsize c) (nat v) @ bs))
      else Inl StructError)"
| "struct_pack bo [] (v # vs) = Inl StructError"
| "struct_pack bo (c # cs) [] = Inl StructError"

fun unpack_fields :: "byteorder \<Rightarrow> fcode list \<Rightarrow> byte list \<Rightarrow> int list" where
  "unpack_fields bo [] bs = []"
| "unpack_fields bo (c # cs) bs =
     int (dec bo (take (fsize c) bs)) # unpack_fields bo cs (drop (fsize c) bs)"

definition struct_unpack :: "byteorder \<Rightarrow> fcode list \<Rightarrow> byte list \<Rightarrow> pyerror + int list" where
  "struct_unpack bo fmt data =
     (if length data \<noteq> calcsize fmt then Inl StructError
      else Inr (unpack_fields bo fmt data))"

section \<open>The memory map\<close>

text \<open>
  \<^verbatim>\<open>shm_map[a:b]\<close> reads a slice, clipped to the length as every Python slice is
  (\<open>py_slice\<close>, also used for \<^verbatim>\<open>data[0:4]\<close> in the reflector).
  \<^verbatim>\<open>shm_map[a:b] = data\<close> writes in place; an \<^verbatim>\<open>mmap\<close> cannot change size, so the
  assignment raises \<^verbatim>\<open>IndexError\<close> unless \<open>data\<close> has exactly the slice's length.
  A mutating call returns what it raised (or \<open>Inr ()\<close>) and the map as it left it.
\<close>

definition py_slice :: "byte list \<Rightarrow> nat \<Rightarrow> nat \<Rightarrow> byte list" where
  "py_slice m a b = take (b - a) (drop a m)"

definition mmap_assign ::
  "byte list \<Rightarrow> nat \<Rightarrow> nat \<Rightarrow> byte list \<Rightarrow> (pyerror + unit) \<times> byte list" where
  "mmap_assign m a b data =
     (if length data \<noteq> length (py_slice m a b) then (Inl IndexError, m)
      else (Inr (), take a m @ data @ drop (a + length data) m))"

section \<open>The shared-region codec (\<^verbatim>\<open>twamp_daemon.py\<close>)\<close>

definition entry_size :: nat where
  "entry_size = 24"

definition base_offset :: nat where
  "base_offset = 40 + 12"

text \<open>The format string \<^verbatim>\<open>'!IBBHIQ'\<close> of \<^verbatim>\<open>read_nexthop\<close> and of both writers.\<close>

definition entry_fmt :: "fcode list" where
  "entry_fmt = [FmtI, FmtB, FmtB, FmtH, FmtI, FmtQ]"

record nexthop =
  addr :: int
  active :: int
  measured :: int
  latency_ms :: int
  last_updated :: int

text \<open>
  \<^verbatim>\<open>struct.unpack('I', shm_map[40:44])[0]\<close>: the count is read in the host's byte order,
  a parameter of the model.
\<close>

definition read_nexthop_count :: "byteorder \<Rightarrow> byte list \<Rightarrow> pyerror + int" where
  "read_nexthop_count native shm_map =
     (let offset = 40 in
      case struct_unpack native [FmtI] (py_slice shm_map offset (offset + 4)) of
        Inl e \<Rightarrow> Inl e
      | Inr vals \<Rightarrow> (case vals of [] \<Rightarrow> Inl IndexError | v # _ \<Rightarrow> Inr v))"

text \<open>
  \<^verbatim>\<open>read_nexthop\<close> slices \<open>entry_size\<close> bytes, unpacks them with \<^verbatim>\<open>'!IBBHIQ'\<close> and binds
  the result to seven names (\<^verbatim>\<open>addr, active, measured, pad1, pad2, latency,
  last_updated\<close>); binding a tuple of another length raises \<^verbatim>\<open>ValueError\<close>.
\<close>

definition read_nexthop :: "byte list \<Rightarrow> nat \<Rightarrow> pyerror + nexthop" where
  "read_nexthop shm_map index =
     (let offset = base_offset + index * entry_size;
          data = py_slice shm_map offset (offset + entry_size)
      in case struct_unpack BigEndian entry_fmt data of
           Inl e \<Rightarrow> Inl e
         | Inr vals \<Rightarrow>
             (if length vals \<noteq> 7 then Inl ValueError
              else Inr \<lparr>addr = vals ! 0, active = vals ! 1, measured = vals ! 2,
                        latency_ms = vals ! 5, last_updated = vals ! 6\<rparr>))"

text \<open>
  \<^verbatim>\<open>write_nexthop_latency\<close>: \<open>now\<close> is the clock reading \<^verbatim>\<open>int(time.time())\<close>, taken
  after the entry is read. \<^verbatim>\<open>struct.pack\<close> gets seven values: the two zeros of the
  padding are separate arguments in the source.
\<close>

definition write_nexthop_latency ::
  "byte list \<Rightarrow> nat \<Rightarrow> int \<Rightarrow> int \<Rightarrow> (pyerror + unit) \<times> byte list" where
  "write_nexthop_latency shm_map index latency now =
     (let offset = base_offset + index * entry_size in
      case read_nexthop shm_map index of
        Inl e \<Rightarrow> (Inl e, shm_map)
      | Inr nh \<Rightarrow>
          (case struct_pack BigEndian entry_fmt
                  [addr nh, active nh, 1, 0, 0, latency, now] of
             Inl e \<Rightarrow> (Inl e, shm_map)
           | Inr data \<Rightarrow> mmap_assign shm_map offset (offset + entry_size) data))"

definition mark_nexthop_failed :: "byte list \<Rightarrow> nat \<Rightarrow> (pyerror + unit) \<times> byte list" where
  "mark_nexthop_failed shm_map index =
     (let offset = base_offset + index * entry_size in
      case read_nexthop shm_map index of
        Inl e \<Rightarrow> (Inl e, shm_map)
      | Inr nh \<Rightarrow>
          (case struct_pack BigEndian entry_fmt
                  [addr nh, active nh, 0, 0, 0, 0xFFFFFFFF, last_updated nh] of
             Inl e \<Rightarrow> (Inl e, shm_map)
           | Inr data \<Rightarrow> mmap_assign shm_map offset (offset + entry_size) data))"

text \<open>
  A region as the routing process allocates it: \<open>40 + 12 + 1024 * 24\<close> bytes. The
  sample region holds one next-hop (count 1 on a little-endian host), address 10.0.0.1,
  active, not yet measured.
\<close>

definition region_size :: nat where
  "region_size = 40 + 12 + 1024 * 24"

definition sample_region :: "byte list" where
  "sample_region =
     replicate 40 0 @ [1, 0, 0, 0] @ replicate 8 0
     @ [10, 0, 0, 1, 1, 0, 0, 0, 255, 255, 255, 255] @ replicate 12 0
     @ replicate (1023 * 24) 0"

section \<open>The probe protocol (\<^verbatim>\<open>measure_twamp_light\<close>)\<close>

text \<open>
  A Python value \<^verbatim>\<open>measure_twamp_light\<close> can hand to its caller. RTTs are floats in
  the source; the model computes with \<^typ>\<open>real\<close>, so rounding of the float
  arithmetic is left out.
\<close>

datatype pyval = PyNone | PyFloat real | PyTuple "pyval list"

text \<open>
  What \<^verbatim>\<open>sendto\<close> and \<^verbatim>\<open>recvfrom\<close> do for one packet: a reply arrives between two
  readings of \<^verbatim>\<open>time.perf_counter()\<close>, or one of the calls raises \<^verbatim>\<open>socket.timeout\<close>,
  or one of them raises another exception.
\<close>

datatype io_result = Reply real real | Timeout | Failure

record probe_env =
  sock_ok :: bool
  wall_clock_us :: "nat \<Rightarrow> int"
  io :: "nat \<Rightarrow> io_result"

record burst_state =
  rtts :: "real list"
  sent :: "byte list list"

text \<open>Lines 74 to 77, for the loop index \<open>i\<close> of \<^verbatim>\<open>range(count)\<close>.\<close>

definition probe_packet :: "nat \<Rightarrow> int \<Rightarrow> pyerror + byte list" where
  "probe_packet i timestamp =
     (let seq_num = int i + 1
      in struct_pack BigEndian [FmtI, FmtQ, FmtQ] [seq_num, timestamp, 0])"

text \<open>
  The body of the \<^verbatim>\<open>for\<close> loop over the remaining indices. \<open>sent\<close> lists the packets
  handed to \<^verbatim>\<open>sock.sendto\<close>. An exception other than \<^verbatim>\<open>socket.timeout\<close> leaves the loop
  (\<open>Some e\<close>) with the state as it was when it was raised.
\<close>

fun burst :: "probe_env \<Rightarrow> nat list \<Rightarrow> burst_state \<Rightarrow> pyerror option \<times> burst_state" where
  "burst env [] st = (None, st)"
| "burst env (i # is) st =
     (case probe_packet i (wall_clock_us env i) of
        Inl e \<Rightarrow> (Some e, st)
      | Inr packet \<Rightarrow>
          (case io env i of
             Reply start_time end_time \<Rightarrow>
               burst env is (st\<lparr>rtts := rtts st @ [(end_time - start_time) * 1000],
                                sent := sent st @ [packet]\<rparr>)
           | Timeout \<Rightarrow> burst env is (st\<lparr>sent := sent st @ [packet]\<rparr>)
           | Failure \<Rightarrow> (Some SocketError, st\<lparr>sent := sent st @ [packet]\<rparr>)))"

text \<open>The loop over \<^verbatim>\<open>range(count)\<close>, entered with \<^verbatim>\<open>rtts = []\<close>.\<close>

definition burst0 :: burst_state where
  "burst0 = \<lparr>rtts = [], sent = []\<rparr>"

definition run_burst :: "probe_env \<Rightarrow> nat \<Rightarrow> pyerror option \<times> burst_state" where
  "run_burst env count = burst env [0..<count] burst0"

definition loss_pct :: "nat \<Rightarrow> real list \<Rightarrow> real" where
  "loss_pct count rs = ((real count - real (length rs)) / real count) * 100"

text \<open>
  \<^verbatim>\<open>measure_twamp_light\<close>: every exception ends in the outer handler, which returns
  \<^verbatim>\<open>None\<close>. \<open>loss_pct\<close> is computed for the printed line only.
\<close>

definition measure_twamp_light :: "probe_env \<Rightarrow> nat \<Rightarrow> pyval" where
  "measure_twamp_light env count =
     (if \<not> sock_ok env then PyNone
      else case run_burst env count of
             (Some e, st) \<Rightarrow> PyNone
           | (None, st) \<Rightarrow>
               (if rtts st \<noteq> []
                then PyFloat (sum_list (rtts st) / real (length (rtts st)))
                else PyNone))"

section \<open>The measurement cycle\<close>

text \<open>
  \<^verbatim>\<open>ip_to_string\<close> packs the address as four big-endian bytes and prints them as a
  dotted quad.
\<close>

fun decimal :: "nat \<Rightarrow> string" where
  "decimal n =
     (if n < 10 then [char_of (48 + n)]
      else decimal (n div 10) @ [char_of (48 + n mod 10)])"

fun dotted :: "string list \<Rightarrow> string" where
  "dotted [] = []"
| "dotted [s] = s"
| "dotted (s # t # ss) = s @ ''.'' @ dotted (t # ss)"

text \<open>\<^verbatim>\<open>socket.inet_ntoa(struct.pack('!I', ip_int))\<close>.\<close>

definition ip_to_string :: "int \<Rightarrow> pyerror + string" where
  "ip_to_string ip_int =
     (case struct_pack BigEndian [FmtI] [ip_int] of
        Inl e \<Rightarrow> Inl e
      | Inr bs \<Rightarrow> Inr (dotted (map (\<lambda>b. decimal (unat b)) bs)))"

text \<open>\<^verbatim>\<open>int(x)\<close> on a float truncates towards zero.\<close>

definition py_int :: "real \<Rightarrow> int" where
  "py_int x = (if 0 \<le> x then \<lfloor>x\<rfloor> else \<lceil>x\<rceil>)"

text \<open>
  What one cycle meets outside the map: the host's byte order, the network as the burst
  for entry \<open>i\<close> finds it, and the clock reading \<^verbatim>\<open>int(time.time())\<close> when entry \<open>i\<close>
  is written. The state of the loop is the map, the next-hops handed to
  \<^verbatim>\<open>measure_twamp_light\<close> so far (index and address string) and \<^verbatim>\<open>measured_count\<close>.
  An exception of the codec is not caught in \<^verbatim>\<open>run_measurement_cycle\<close>: it ends the
  cycle.
\<close>

record cycle_env =
  native :: byteorder
  net :: "nat \<Rightarrow> probe_env"
  clock_s :: "nat \<Rightarrow> int"

record cycle_state =
  shm :: "byte list"
  probed :: "(nat \<times> string) list"
  measured_count :: nat

fun cycle_loop ::
  "cycle_env \<Rightarrow> nat \<Rightarrow> nat list \<Rightarrow> cycle_state \<Rightarrow> (pyerror + unit) \<times> cycle_state" where
  "cycle_loop env npackets [] st = (Inr (), st)"
| "cycle_loop env npackets (i # is) st =
     (case read_nexthop (shm st) i of
        Inl e \<Rightarrow> (Inl e, st)
      | Inr nh \<Rightarrow>
          (if active nh = 0 then cycle_loop env npackets is st
           else
             (case ip_to_string (addr nh) of
                Inl e \<Rightarrow> (Inl e, st)
              | Inr ip_str \<Rightarrow>
                  (let st1 = st\<lparr>probed := probed st @ [(i, ip_str)]\<rparr> in
                   case measure_twamp_light (net env i) npackets of
                     PyNone \<Rightarrow>
                       (case mark_nexthop_failed (shm st1) i of
                          (Inl e, m) \<Rightarrow> (Inl e, st1\<lparr>shm := m\<rparr>)
                        | (Inr u, m) \<Rightarrow> cycle_loop env npackets is (st1\<lparr>shm := m\<rparr>))
                   | PyFloat latency \<Rightarrow>
                       (case write_nexthop_latency (shm st1) i
                               (py_int (latency + 1 / 2)) (clock_s env i) of
                          (Inl e, m) \<Rightarrow> (Inl e, st1\<lparr>shm := m\<rparr>)
                        | (Inr u, m) \<Rightarrow>
                            cycle_loop env npackets is
                              (st1\<lparr>shm := m, measured_count := measured_count st1 + 1\<rparr>))
                   | PyTuple vs \<Rightarrow> (Inl TypeError, st1)))))"

definition run_measurement_cycle ::
  "cycle_env \<Rightarrow> nat \<Rightarrow> byte list \<Rightarrow> (pyerror + unit) \<times> cycle_state" where
  "run_measurement_cycle env npackets shm_map =
     (let st0 = \<lparr>shm = shm_map, probed = [], measured_count = 0\<rparr> in
      case read_nexthop_count (native env) shm_map of
        Inl e \<Rightarrow> (Inl e, st0)
      | Inr count \<Rightarrow>
          (if count = 0 then (Inr (), st0)
           else cycle_loop env npackets [0..<nat count] st0))"

section \<open>The reflector (\<^verbatim>\<open>twamp_reflector.py\<close>)\<close>

text \<open>
  What one call of \<^verbatim>\<open>sock.recvfrom(1024)\<close> does: it returns \<open>data\<close> and the sender's
  address, raises \<^verbatim>\<open>socket.timeout\<close>, or raises another exception. \<open>echoed\<close> lists the
  calls of \<^verbatim>\<open>sock.sendto(data, addr)\<close> in order. \<open>reflect\<close> is the body of the loop for
  one such outcome; it does not look at \<^verbatim>\<open>running\<close>.
\<close>

type_synonym sockaddr = "string \<times> nat"

datatype rx = Datagram "byte list" sockaddr | RecvTimeout | RecvError

record reflector =
  running :: bool
  packet_count :: nat
  echoed :: "(byte list \<times> sockaddr) list"

fun reflect :: "reflector \<Rightarrow> rx \<Rightarrow> reflector" where
  "reflect st (Datagram data a) =
     (if length data < 20 then st
      else
        (let st1 = st\<lparr>packet_count := packet_count st + 1\<rparr> in
         case struct_unpack BigEndian [FmtI] (py_slice data 0 4) of
           Inl e \<Rightarrow> st1
         | Inr vals \<Rightarrow> st1\<lparr>echoed := echoed st1 @ [(data, a)]\<rparr>))"
| "reflect st RecvTimeout = st"
| "reflect st RecvError = st"

text \<open>
  The handler of SIGINT and SIGTERM only clears \<^verbatim>\<open>running\<close>. The flag is read at the
  head of the loop and nowhere else, so a signal that arrives during a pass (while
  \<^verbatim>\<open>recvfrom\<close> waits, which then resumes, or later in the body) does not end that pass:
  what \<^verbatim>\<open>recvfrom\<close> returns is still handled, and the loop ends at the next test. A pass
  of the loop is therefore the outcome of its \<^verbatim>\<open>recvfrom\<close> together with whether the
  handler ran during it.
\<close>

definition signal_handler :: "reflector \<Rightarrow> reflector" where
  "signal_handler st = st\<lparr>running := False\<rparr>"

record loop_pass =
  signalled :: bool
  received :: rx

fun serve :: "reflector \<Rightarrow> loop_pass list \<Rightarrow> reflector" where
  "serve st [] = st"
| "serve st (p # ps) =
     (if running st
      then serve (reflect (if signalled p then signal_handler st else st) (received p)) ps
      else st)"

section \<open>Notions the statements use\<close>

text \<open>
  For loop index \<open>i\<close> of a burst: the packet built, the RTT sample the exchange yields
  (none on a timeout), and whether the index ends the burst with an exception (the
  packet cannot be packed, or a socket call raises something other than a timeout).
  \<open>samples\<close> and \<open>sent_packets\<close> collect them over \<^verbatim>\<open>range(count)\<close>. The environments
  and regions below are the concrete inputs the statements are evaluated on.
\<close>

definition packet_of :: "probe_env \<Rightarrow> nat \<Rightarrow> byte list" where
  "packet_of env i =
     (case probe_packet i (wall_clock_us env i) of Inl e \<Rightarrow> [] | Inr packet \<Rightarrow> packet)"

definition sample :: "probe_env \<Rightarrow> nat \<Rightarrow> real list" where
  "sample env i =
     (case io env i of
        Reply start_time end_time \<Rightarrow> [(end_time - start_time) * 1000]
      | Timeout \<Rightarrow> []
      | Failure \<Rightarrow> [])"

definition aborts :: "probe_env \<Rightarrow> nat \<Rightarrow> bool" where
  "aborts env i = (isl (probe_packet i (wall_clock_us env i)) \<or> io env i = Failure)"

definition samples :: "probe_env \<Rightarrow> nat \<Rightarrow> real list" where
  "samples env count = concat (map (sample env) [0..<count])"


definition env_replies :: probe_env where
  "env_replies =
     \<lparr>sock_ok = True, wall_clock_us = (\<lambda>i. 1700000000000000 + int i),
      io = (\<lambda>i. if i = 0 then Reply 0 (2 / 1000) else Reply 1 (1004 / 1000))\<rparr>"

definition env_lossy :: probe_env where
  "env_lossy =
     \<lparr>sock_ok = True, wall_clock_us = (\<lambda>i. 1700000000000000 + int i),
      io = (\<lambda>i. if i = 0 then Reply 0 (3 / 1000) else Timeout)\<rparr>"

definition env_broken :: probe_env where
  "env_broken =
     \<lparr>sock_ok = True, wall_clock_us = (\<lambda>i. 1700000000000000 + int i),
      io = (\<lambda>i. if i = 0 then Reply 0 (2 / 1000) else Failure)\<rparr>"

definition env_silent :: probe_env where
  "env_silent =
     \<lparr>sock_ok = True, wall_clock_us = (\<lambda>i. 1700000000000000 + int i),
      io = (\<lambda>i. Timeout)\<rparr>"

definition echo_of :: "rx \<Rightarrow> (byte list \<times> sockaddr) list" where
  "echo_of ev =
     (case ev of
        Datagram data a \<Rightarrow> (if 20 \<le> length data then [(data, a)] else [])
      | RecvTimeout \<Rightarrow> []
      | RecvError \<Rightarrow> [])"

text \<open>The passes a running loop goes through: all up to and including the first signalled one.\<close>

fun passes_run :: "loop_pass list \<Rightarrow> loop_pass list" where
  "passes_run [] = []"
| "passes_run (p # ps) = p # (if signalled p then [] else passes_run ps)"

definition entry_bytes :: "byte list \<Rightarrow> nat \<Rightarrow> byte list" where
  "entry_bytes shm_map index =
     py_slice shm_map (base_offset + index * entry_size)
       (base_offset + index * entry_size + entry_size)"

definition cycle0 :: "byte list \<Rightarrow> cycle_state" where
  "cycle0 shm_map = \<lparr>shm = shm_map, probed = [], measured_count = 0\<rparr>"

definition sample_env :: cycle_env where
  "sample_env = \<lparr>native = LittleEndian, net = (\<lambda>i. env_replies), clock_s = (\<lambda>i. 1700000000)\<rparr>"

definition listening :: reflector where
  "listening = \<lparr>running = True, packet_count = 0, echoed = []\<rparr>"

definition probe20 :: "byte list" where
  "probe20 = [0, 0, 0, 1, 0, 6, 10, 36, 24, 30, 64, 0, 0, 0, 0, 0, 0, 0, 0, 0]"

definition sample_passes :: "loop_pass list" where
  "sample_passes =
     [\<lparr>signalled = False, received = Datagram probe20 (''10.0.0.2'', 40000)\<rparr>,
      \<lparr>signalled = False, received = Datagram (take 10 probe20) (''10.0.0.2'', 40000)\<rparr>,
      \<lparr>signalled = False, received = RecvTimeout\<rparr>,
      \<lparr>signalled = True, received = Datagram probe20 (''10.0.0.3'', 40001)\<rparr>,
      \<lparr>signalled = False, received = Datagram probe20 (''10.0.0.4'', 40002)\<rparr>]"


section \<open>Facts about the struct model\<close>

lemma length_be_bytes: "length (be_bytes n v) = n"
  by (induction n arbitrary: v) simp_all

lemma length_enc: "length (enc bo n v) = n"
  by (cases bo) (simp_all add: enc_def length_be_bytes)

lemma be_val_snoc: "be_val (bs @ [b]) = be_val bs * 256 + unat b"
  by (simp add: be_val_def)

lemma be_val_be_bytes: "be_val (be_bytes n v) = v mod 256 ^ n"
proof (induction n arbitrary: v)
  case 0
  show ?case by (simp add: be_val_def)
next
  case (Suc n)
  have "be_val (be_bytes (Suc n) v) = (v div 256 mod 256 ^ n) * 256 + v mod 256"
    by (simp add: be_val_snoc Suc unat_of_nat)
  also have "\<dots> = v mod 256 ^ Suc n"
    by (simp add: mod_mult2_eq mult.commute)
  finally show ?case .
qed

lemma dec_enc: "v < 256 ^ n \<Longrightarrow> dec bo (enc bo n v) = v"
  by (cases bo) (simp_all add: dec_def enc_def be_val_be_bytes)

lemma length_unpack_fields: "length (unpack_fields bo fmt bs) = length fmt"
  by (induction fmt arbitrary: bs) simp_all

lemma struct_pack_arity:
  "length vs \<noteq> length fmt \<Longrightarrow> struct_pack bo fmt vs = Inl StructError"
  by (induction bo fmt vs rule: struct_pack.induct) (auto split: sum.splits)

lemma struct_pack_length:
  "struct_pack bo fmt vs = Inr bs \<Longrightarrow> length bs = calcsize fmt"
  by (induction bo fmt vs arbitrary: bs rule: struct_pack.induct)
     (auto simp: calcsize_def length_enc split: sum.splits if_splits)

lemma calcsize_entry_fmt: "calcsize entry_fmt = 20"
  by (simp add: calcsize_def entry_fmt_def)

section \<open>The codec never gets past its first unpack\<close>

text \<open>
  \<^verbatim>\<open>'!IBBHIQ'\<close> describes 20 bytes and six values. The slice \<^verbatim>\<open>read_nexthop\<close> takes
  has 24 bytes wherever the entry lies inside the map, so \<^verbatim>\<open>struct.unpack\<close> raises; a
  slice of exactly 20 bytes (an entry cut off by the end of a short map) unpacks to six
  values, which do not bind to seven names. No input makes \<^verbatim>\<open>read_nexthop\<close> return.
\<close>

lemma read_nexthop_raises:
  "read_nexthop shm_map index = Inl StructError \<or> read_nexthop shm_map index = Inl ValueError"
  by (simp add: read_nexthop_def struct_unpack_def Let_def length_unpack_fields entry_fmt_def)

lemma read_nexthop_in_range:
  assumes "base_offset + index * entry_size + entry_size \<le> length shm_map"
  shows "read_nexthop shm_map index = Inl StructError"
proof -
  have "length (py_slice shm_map (base_offset + index * entry_size)
          (base_offset + index * entry_size + entry_size)) = 24"
    using assms by (simp add: py_slice_def entry_size_def)
  then show ?thesis
    by (simp add: read_nexthop_def struct_unpack_def Let_def calcsize_entry_fmt)
qed

lemma write_nexthop_latency_unchanged:
  "snd (write_nexthop_latency shm_map index latency now) = shm_map"
  using read_nexthop_raises [of shm_map index]
  by (auto simp: write_nexthop_latency_def Let_def)

lemma mark_nexthop_failed_unchanged:
  "snd (mark_nexthop_failed shm_map index) = shm_map"
  using read_nexthop_raises [of shm_map index]
  by (auto simp: mark_nexthop_failed_def Let_def)

lemma length_sample_region: "length sample_region = region_size"
  by (simp add: sample_region_def region_size_def)

lemma sample_region_count: "read_nexthop_count LittleEndian sample_region = Inr 1"
  by (simp add: read_nexthop_count_def struct_unpack_def py_slice_def sample_region_def
      calcsize_def dec_def be_val_def)

lemma mmap_assign_length: "length (snd (mmap_assign m a b data)) = length m"
proof (cases "length data = length (py_slice m a b)")
  case False
  then show ?thesis by (simp add: mmap_assign_def)
next
  case True
  then have "length data = min (b - a) (length m - a)"
    by (simp add: py_slice_def)
  then have "min a (length m) + length data + (length m - (a + length data)) = length m"
    by arith
  with True show ?thesis by (simp add: mmap_assign_def min.commute add.assoc)
qed

lemma mmap_assign_frame:
  assumes "p < a \<or> b \<le> p" and "p < length m"
  shows "snd (mmap_assign m a b data) ! p = m ! p"
proof (cases "length data = length (py_slice m a b)")
  case False
  then show ?thesis by (simp add: mmap_assign_def)
next
  case True
  then have len: "length data = min (b - a) (length m - a)"
    by (simp add: py_slice_def)
  show ?thesis
  proof (cases "p < a")
    case True
    with assms(2) \<open>length data = length (py_slice m a b)\<close> show ?thesis
      by (simp add: mmap_assign_def nth_append)
  next
    case False
    with assms len have le: "a + length data \<le> p" and a: "a \<le> length m" by arith+
    let ?n = "length data"
    have "(take a m @ data @ drop (a + ?n) m) ! p = (data @ drop (a + ?n) m) ! (p - a)"
      using a False by (simp add: nth_append)
    also have "\<dots> = drop (a + ?n) m ! (p - a - ?n)"
    proof -
      from le have "\<not> p - a < ?n" by arith
      then show ?thesis by (simp add: nth_append)
    qed
    also have "\<dots> = m ! p"
    proof -
      from le have "a + ?n + (p - a - ?n) = p" by arith
      moreover from le assms(2) have "a + ?n \<le> length m" by arith
      ultimately show ?thesis by (simp add: nth_drop)
    qed
    finally show ?thesis
      using \<open>length data = length (py_slice m a b)\<close> by (simp add: mmap_assign_def)
  qed
qed

section \<open>Claims about the codec\<close>

text \<open>
  Claim C1 says that \<^verbatim>\<open>writeLatency(region, index, L)\<close> followed by
  \<^verbatim>\<open>readEntry(region, index)\<close> returns an entry with \<open>measured = true\<close> and
  \<open>latencyMs = L\<close>, address and active flag as before. On the sample region (full size,
  count 1, index 0, \<open>L = 5\<close>) the code does neither: \<^verbatim>\<open>write_nexthop_latency\<close> raises
  \<^verbatim>\<open>struct.error\<close> from its own call of \<^verbatim>\<open>read_nexthop\<close> and leaves the region as it
  was, and the read that follows raises the same error and returns no entry.
\<close>

theorem write_latency_then_read_raises:
  "read_nexthop_count LittleEndian sample_region = Inr 1
   \<and> write_nexthop_latency sample_region 0 5 1700000000 = (Inl StructError, sample_region)
   \<and> read_nexthop (snd (write_nexthop_latency sample_region 0 5 1700000000)) 0
       = Inl StructError"
proof -
  have r: "read_nexthop sample_region 0 = Inl StructError"
    by (rule read_nexthop_in_range)
       (simp add: length_sample_region region_size_def base_offset_def entry_size_def)
  then have w: "write_nexthop_latency sample_region 0 5 1700000000 = (Inl StructError, sample_region)"
    by (simp add: write_nexthop_latency_def)
  show ?thesis using r w sample_region_count by simp
qed

text \<open>
  Claim C2 says that \<^verbatim>\<open>markFailed(region, index)\<close> followed by
  \<^verbatim>\<open>readEntry(region, index)\<close> returns an entry with \<open>measured = false\<close>,
  \<open>latencyMs = 0xFFFFFFFF\<close> and the earlier \<open>lastUpdated\<close>. On the sample region
  \<^verbatim>\<open>mark_nexthop_failed\<close> raises \<^verbatim>\<open>struct.error\<close> and writes nothing (the entry keeps
  \<open>measured = 0\<close> only because it held it before), and the read that follows raises too.
\<close>

theorem mark_failed_then_read_raises:
  "read_nexthop_count LittleEndian sample_region = Inr 1
   \<and> mark_nexthop_failed sample_region 0 = (Inl StructError, sample_region)
   \<and> read_nexthop (snd (mark_nexthop_failed sample_region 0)) 0 = Inl StructError"
proof -
  have r: "read_nexthop sample_region 0 = Inl StructError"
    by (rule read_nexthop_in_range)
       (simp add: length_sample_region region_size_def base_offset_def entry_size_def)
  then have w: "mark_nexthop_failed sample_region 0 = (Inl StructError, sample_region)"
    by (simp add: mark_nexthop_failed_def)
  show ?thesis using r w sample_region_count by simp
qed

text \<open>
  Claim C3 is about the entry a completed codec write leaves. No call of either writer
  completes, for any map, index, latency and clock reading, so the code offers no such
  entry to state the invariant of.
\<close>

lemma no_codec_write_completes:
  "isl (fst (write_nexthop_latency shm_map index latency now))
   \<and> isl (fst (mark_nexthop_failed shm_map index))"
  using read_nexthop_raises [of shm_map index]
  by (auto simp: write_nexthop_latency_def mark_nexthop_failed_def Let_def)

text \<open>
  Claim C4: for every index, \<^verbatim>\<open>writeLatency\<close> and \<^verbatim>\<open>markFailed\<close> modify only the 24
  bytes of entry \<open>index\<close>, the range \<open>[52 + 24 * index, 52 + 24 * index + 24)\<close>: the map
  keeps its length, and every byte of it outside that range (the 52-byte header and
  every other entry) is the same before and after the call, whether the call returns or
  raises.
\<close>

theorem codec_write_frame:
  assumes "p < 52 + 24 * index \<or> 52 + 24 * index + 24 \<le> p" and "p < length shm_map"
  shows "length (snd (write_nexthop_latency shm_map index latency now)) = length shm_map
       \<and> snd (write_nexthop_latency shm_map index latency now) ! p = shm_map ! p
       \<and> length (snd (mark_nexthop_failed shm_map index)) = length shm_map
       \<and> snd (mark_nexthop_failed shm_map index) ! p = shm_map ! p"
proof -
  have off: "p < base_offset + index * entry_size
      \<or> base_offset + index * entry_size + entry_size \<le> p"
    using assms by (simp add: base_offset_def entry_size_def mult.commute)
  show ?thesis
    using mmap_assign_frame [OF off assms(2)] mmap_assign_length
    by (auto simp: write_nexthop_latency_def mark_nexthop_failed_def Let_def
        split: sum.splits)
qed

theorem codec_write_frame_witness:
  "((40::nat) < 52 + 24 * 0 \<or> 52 + 24 * 0 + 24 \<le> (40::nat))
   \<and> 40 < length sample_region
   \<and> length (snd (write_nexthop_latency sample_region 0 5 1700000000)) = 24628
   \<and> snd (write_nexthop_latency sample_region 0 5 1700000000) ! 40 = 1
   \<and> length (snd (mark_nexthop_failed sample_region 0)) = 24628
   \<and> snd (mark_nexthop_failed sample_region 0) ! 40 = 1"
  using codec_write_frame [of 40 0 sample_region 5 1700000000]
  by (simp add: sample_region_def nth_append)


section \<open>Facts about the probe burst\<close>

lemma be_bytes_zero: "be_bytes n 0 = replicate n 0"
  by (induction n) (simp_all add: replicate_append_same)



lemma burst_completes:
  "\<forall>i\<in>set is. \<not> aborts env i \<Longrightarrow>
   burst env is st =
     (None, st\<lparr>rtts := rtts st @ concat (map (sample env) is),
                sent := sent st @ map (packet_of env) is\<rparr>)"
proof (induction "is" arbitrary: st)
  case Nil
  show ?case by simp
next
  case (Cons i "is")
  from Cons.prems have ok: "\<not> aborts env i" and rest: "\<forall>j\<in>set is. \<not> aborts env j"
    by simp_all
  from ok obtain p where p: "probe_packet i (wall_clock_us env i) = Inr p"
    by (cases "probe_packet i (wall_clock_us env i)") (auto simp: aborts_def)
  from ok have nf: "io env i \<noteq> Failure" by (simp add: aborts_def)
  show ?case
    using p nf Cons.IH [OF rest]
    by (cases "io env i") (simp_all add: sample_def packet_of_def)
qed

lemma burst_aborts:
  "\<exists>i\<in>set is. aborts env i \<Longrightarrow> fst (burst env is st) \<noteq> None"
proof (induction "is" arbitrary: st)
  case Nil
  then show ?case by simp
next
  case (Cons i "is")
  show ?case
  proof (cases "aborts env i")
    case True
    then show ?thesis
      by (cases "probe_packet i (wall_clock_us env i)"; cases "io env i")
         (simp_all add: aborts_def)
  next
    case False
    with Cons.prems have "\<exists>j\<in>set is. aborts env j" by simp
    from Cons.IH [OF this] show ?thesis
      by (cases "probe_packet i (wall_clock_us env i)"; cases "io env i") simp_all
  qed
qed




lemma run_burst_completes:
  assumes "\<forall>i<count. \<not> aborts env i"
  shows "run_burst env count =
    (None, \<lparr>rtts = samples env count, sent = map (packet_of env) [0..<count]\<rparr>)"
  using burst_completes [of "[0..<count]" env burst0] assms
  by (simp add: run_burst_def samples_def burst0_def)

lemma run_burst_aborts:
  assumes "i < count" and "aborts env i"
  shows "fst (run_burst env count) \<noteq> None"
proof -
  from assms have "\<exists>j\<in>set [0..<count]. aborts env j" by auto
  from burst_aborts [OF this] show ?thesis by (simp add: run_burst_def)
qed

lemma samples_empty_iff: "samples env count = [] \<longleftrightarrow> (\<forall>i<count. sample env i = [])"
  by (auto simp: samples_def)

section \<open>Claims about the probe protocol\<close>

text \<open>
  Claim C5, as amended: when the socket opens, no index of the burst ends it with an
  exception and at least one RTT sample is collected, \<^verbatim>\<open>measure_twamp_light\<close> returns the
  arithmetic mean of the collected samples, a single float; the loss figure is computed
  for the printed line and is not part of the result.
\<close>

theorem measure_returns_mean_alone:
  assumes "sock_ok env" and "\<forall>i<count. \<not> aborts env i" and "\<exists>i<count. sample env i \<noteq> []"
  shows "rtts (snd (run_burst env count)) = samples env count
       \<and> measure_twamp_light env count
           = PyFloat (sum_list (samples env count) / real (length (samples env count)))"
proof -
  from assms(3) have "samples env count \<noteq> []"
    by (simp add: samples_empty_iff)
  with assms(1) run_burst_completes [OF assms(2)] show ?thesis
    by (simp add: measure_twamp_light_def)
qed

text \<open>
  Claim C5 as stated asks for the pair of the mean and the loss fraction. Two replies of
  2 ms and 4 ms out of two packets give the float 3, not the pair \<open>(3, 0)\<close>.
\<close>

theorem measure_pair_counterexample:
  "rtts (snd (run_burst env_replies 2)) = [2, 4]
   \<and> measure_twamp_light env_replies 2 = PyFloat 3
   \<and> measure_twamp_light env_replies 2 \<noteq> PyTuple [PyFloat 3, PyFloat 0]"
  by (simp add: measure_twamp_light_def run_burst_def burst0_def env_replies_def upt_conv_Cons
      probe_packet_def)

theorem measure_returns_mean_alone_witness:
  "sock_ok env_lossy \<and> \<not> aborts env_lossy 0 \<and> \<not> aborts env_lossy 1
   \<and> sample env_lossy 0 \<noteq> []
   \<and> rtts (snd (run_burst env_lossy 2)) = [3]
   \<and> samples env_lossy 2 = [3]
   \<and> measure_twamp_light env_lossy 2 = PyFloat 3"
proof -
  have a: "\<not> aborts env_lossy 0" "\<not> aborts env_lossy 1"
    by (simp_all add: aborts_def env_lossy_def probe_packet_def)
  then have h2: "\<forall>i<2. \<not> aborts env_lossy i"
    by (simp add: less_2_cases_iff)
  have s: "sample env_lossy 0 \<noteq> []" by (simp add: sample_def env_lossy_def)
  then have h3: "\<exists>i<2. sample env_lossy i \<noteq> []" by (intro exI [of _ 0]) simp
  have h1: "sock_ok env_lossy" by (simp add: env_lossy_def)
  have v: "samples env_lossy 2 = [3]"
    by (simp add: samples_def sample_def env_lossy_def upt_conv_Cons)
  from measure_returns_mean_alone [OF h1 h2 h3] a s h1 v show ?thesis by simp
qed

text \<open>
  Claim C6, as amended: \<^verbatim>\<open>measure_twamp_light\<close> returns \<^verbatim>\<open>None\<close> exactly when the socket
  could not be opened, or some packet of the burst ended it with an exception, or the
  burst ran to its end without one sample. A timeout adds no sample and the loop goes on
  with the next packet; a socket error ends the loop at once.
\<close>

theorem measure_none_iff:
  "(measure_twamp_light env count = PyNone \<longleftrightarrow>
      \<not> sock_ok env \<or> (\<exists>i<count. aborts env i) \<or> (\<forall>i<count. sample env i = []))
   \<and> (probe_packet i (wall_clock_us env i) = Inr p \<and> io env i = Timeout \<longrightarrow>
        burst env (i # is) st = burst env is (st\<lparr>sent := sent st @ [p]\<rparr>))
   \<and> (io env i = Failure \<longrightarrow> fst (burst env (i # is) st) \<noteq> None)"
proof (intro conjI)
  show "measure_twamp_light env count = PyNone \<longleftrightarrow>
      \<not> sock_ok env \<or> (\<exists>i<count. aborts env i) \<or> (\<forall>i<count. sample env i = [])"
  proof (cases "\<exists>i<count. aborts env i")
    case True
    then obtain i where "i < count" "aborts env i" by blast
    from run_burst_aborts [OF this] obtain e st where "run_burst env count = (Some e, st)"
      by (cases "run_burst env count") auto
    with True show ?thesis by (simp add: measure_twamp_light_def)
  next
    case False
    then have "\<forall>i<count. \<not> aborts env i" by simp
    from run_burst_completes [OF this] False show ?thesis
      by (simp add: measure_twamp_light_def samples_empty_iff)
  qed
  show "probe_packet i (wall_clock_us env i) = Inr p \<and> io env i = Timeout \<longrightarrow>
        burst env (i # is) st = burst env is (st\<lparr>sent := sent st @ [p]\<rparr>)"
    by simp
  show "io env i = Failure \<longrightarrow> fst (burst env (i # is) st) \<noteq> None"
    by (cases "probe_packet i (wall_clock_us env i)") simp_all
qed

text \<open>
  Claim C6 as stated has \<^verbatim>\<open>None\<close> returned exactly when the burst yields no sample. A
  reply to the first packet and a socket error on the second give one sample (2 ms) and
  the result \<^verbatim>\<open>None\<close>.
\<close>

theorem none_with_sample_counterexample:
  "rtts (snd (run_burst env_broken 2)) = [2] \<and> measure_twamp_light env_broken 2 = PyNone"
  by (simp add: measure_twamp_light_def run_burst_def burst0_def env_broken_def upt_conv_Cons
      probe_packet_def)

theorem measure_none_iff_witness:
  "sock_ok env_silent \<and> sample env_silent 0 = [] \<and> sample env_silent 1 = []
   \<and> measure_twamp_light env_silent 2 = PyNone
   \<and> measure_twamp_light env_broken 2 = PyNone \<and> aborts env_broken 1
   \<and> measure_twamp_light env_lossy 2 \<noteq> PyNone"
proof -
  have s: "sample env_silent 0 = []" "sample env_silent 1 = []"
    by (simp_all add: sample_def env_silent_def)
  then have "\<forall>i<2. sample env_silent i = []" by (simp add: less_2_cases_iff)
  with measure_none_iff [of env_silent 2 0 "[]" "[]" burst0]
  have 1: "measure_twamp_light env_silent 2 = PyNone" by blast
  have b: "aborts env_broken 1" by (simp add: aborts_def env_broken_def)
  then have "\<exists>i<2. aborts env_broken i" by (intro exI [of _ 1]) simp
  with measure_none_iff [of env_broken 2 0 "[]" "[]" burst0]
  have 2: "measure_twamp_light env_broken 2 = PyNone" by blast
  have "sock_ok env_lossy" by (simp add: env_lossy_def)
  moreover have "\<not> (\<exists>i<2. aborts env_lossy i)"
    by (simp add: less_2_cases_iff aborts_def env_lossy_def probe_packet_def)
  moreover have "\<not> (\<forall>i<2. sample env_lossy i = [])"
    by (simp add: less_2_cases_iff sample_def env_lossy_def)
  ultimately have 3: "measure_twamp_light env_lossy 2 \<noteq> PyNone"
    using measure_none_iff [of env_lossy 2 0 "[]" "[]" burst0] by blast
  show ?thesis using s 1 2 3 b by (simp add: env_silent_def)
qed



section \<open>Claims about the cycle and the reflector\<close>

lemma be_val_zeros: "be_val (replicate n 0) = 0"
  using be_val_be_bytes [of n 0] by (simp add: be_bytes_zero)

lemma cycle_loop_stops:
  "cycle_loop env npackets (i # is) st = (Inl StructError, st)
   \<or> cycle_loop env npackets (i # is) st = (Inl ValueError, st)"
  using read_nexthop_raises [of "shm st" i] by auto

lemma cycle_loop_state: "snd (cycle_loop env npackets is st) = st"
proof (cases "is")
  case Nil
  then show ?thesis by simp
next
  case (Cons i js)
  with cycle_loop_stops [of env npackets i js st] show ?thesis by auto
qed

lemma run_measurement_cycle_state:
  "snd (run_measurement_cycle env npackets shm_map) = cycle0 shm_map"
  by (simp add: run_measurement_cycle_def Let_def cycle0_def cycle_loop_state
      split: sum.splits)

lemma cycle_aborts_on_sample_region:
  "run_measurement_cycle sample_env 3 sample_region = (Inl StructError, cycle0 sample_region)"
proof -
  have r: "read_nexthop sample_region 0 = Inl StructError"
    by (rule read_nexthop_in_range)
       (simp add: length_sample_region region_size_def base_offset_def entry_size_def)
  have "read_nexthop_count (native sample_env) sample_region = Inr 1"
    using sample_region_count by (simp add: sample_env_def)
  with r show ?thesis
    by (simp add: run_measurement_cycle_def cycle0_def)
qed

text \<open>
  Claim C8: one measurement cycle leaves the region as it was when the count read from
  it is 0, and it neither probes nor writes an entry whose active flag is clear. The
  statement holds of every entry, whatever its flag: after a cycle the map is the map
  before it, no index has been handed to the probe, and the 24 bytes of every entry are
  unchanged.
\<close>

theorem cycle_skips:
  "(read_nexthop_count (native env) shm_map = Inr 0 \<longrightarrow>
      run_measurement_cycle env npackets shm_map = (Inr (), cycle0 shm_map))
   \<and> shm (snd (run_measurement_cycle env npackets shm_map)) = shm_map
   \<and> index \<notin> fst ` set (probed (snd (run_measurement_cycle env npackets shm_map)))
   \<and> entry_bytes (shm (snd (run_measurement_cycle env npackets shm_map))) index
       = entry_bytes shm_map index"
  by (simp add: run_measurement_cycle_state)
     (simp add: run_measurement_cycle_def cycle0_def)

theorem cycle_skips_witness:
  "read_nexthop_count (native sample_env) (replicate 24628 0) = Inr 0
   \<and> run_measurement_cycle sample_env 3 (replicate 24628 0)
       = (Inr (), \<lparr>shm = replicate 24628 0, probed = [], measured_count = 0\<rparr>)
   \<and> entry_bytes (shm (snd (run_measurement_cycle sample_env 3 sample_region))) 0
       = [10, 0, 0, 1, 1, 0, 0, 0, 255, 255, 255, 255] @ replicate 12 0"
proof -
  have c: "read_nexthop_count (native sample_env) (replicate 24628 0) = Inr 0"
    by (simp add: read_nexthop_count_def struct_unpack_def py_slice_def sample_env_def
        calcsize_def dec_def be_val_zeros)
  have e: "entry_bytes sample_region 0
      = [10, 0, 0, 1, 1, 0, 0, 0, 255, 255, 255, 255] @ replicate 12 0"
    by (simp add: entry_bytes_def py_slice_def base_offset_def entry_size_def sample_region_def)
  from cycle_skips [of sample_env "replicate 24628 0" 3 0]
       cycle_skips [of sample_env sample_region 3 0] c e
  show ?thesis by (simp add: cycle0_def)
qed

lemma reflect_echoed: "echoed (reflect st ev) = echoed st @ echo_of ev"
proof (cases ev)
  case (Datagram data a)
  show ?thesis
  proof (cases "length data < 20")
    case True
    with Datagram show ?thesis by (simp add: echo_of_def)
  next
    case False
    then have "length (py_slice data 0 4) = calcsize [FmtI]"
      by (simp add: py_slice_def calcsize_def)
    with False Datagram show ?thesis
      by (simp add: echo_of_def struct_unpack_def Let_def)
  qed
qed (simp_all add: echo_of_def)

lemma reflect_signal_handler:
  "reflect (signal_handler st) ev = signal_handler (reflect st ev)"
  by (cases ev) (simp_all add: signal_handler_def Let_def split: sum.splits)

lemma reflect_running: "running (reflect st ev) = running st"
  by (cases ev) (simp_all add: Let_def split: sum.splits)

lemma serve_stopped: "\<not> running st \<Longrightarrow> serve st ps = st"
  by (cases ps) simp_all

lemma serve_echoed:
  "running st \<Longrightarrow>
   echoed (serve st ps) = echoed st @ concat (map (\<lambda>p. echo_of (received p)) (passes_run ps))"
proof (induction ps arbitrary: st)
  case Nil
  show ?case by simp
next
  case (Cons p ps)
  show ?case
  proof (cases "signalled p")
    case True
    have "\<not> running (reflect (signal_handler st) (received p))"
      by (simp add: reflect_running signal_handler_def)
    from serve_stopped [OF this] Cons.prems True show ?thesis
      by (simp add: reflect_echoed signal_handler_def)
  next
    case False
    from Cons.prems have "running (reflect st (received p))"
      by (simp add: reflect_running)
    from Cons.IH [OF this] Cons.prems False show ?thesis
      by (simp add: reflect_echoed)
  qed
qed

text \<open>
  Claim C9: while it is running, the reflector answers a received datagram of at least
  20 bytes with one \<^verbatim>\<open>sendto\<close> of exactly the bytes received, to the address and port
  they came from, and sends nothing for a datagram shorter than 20 bytes. The same holds
  of a datagram that \<^verbatim>\<open>recvfrom\<close> returns after the shutdown signal has cleared the flag
  during its wait. Over a run, the replies are the datagrams of 20 bytes or more received
  in the passes the loop goes through, in order: every pass up to and including the one
  the signal arrives in.
\<close>

theorem reflector_echoes:
  assumes "running st"
  shows "echoed (reflect st (Datagram data a))
           = (if 20 \<le> length data then echoed st @ [(data, a)] else echoed st)
       \<and> echoed (reflect (signal_handler st) (Datagram data a))
           = (if 20 \<le> length data then echoed st @ [(data, a)] else echoed st)
       \<and> echoed (serve st ps)
           = echoed st @ concat (map (\<lambda>p. echo_of (received p)) (passes_run ps))"
proof (intro conjI)
  show "echoed (reflect st (Datagram data a))
      = (if 20 \<le> length data then echoed st @ [(data, a)] else echoed st)"
    using reflect_echoed [of st "Datagram data a"] by (simp add: echo_of_def del: reflect.simps)
  show "echoed (reflect (signal_handler st) (Datagram data a))
      = (if 20 \<le> length data then echoed st @ [(data, a)] else echoed st)"
    using reflect_echoed [of "signal_handler st" "Datagram data a"]
    by (simp add: echo_of_def signal_handler_def del: reflect.simps)
  show "echoed (serve st ps)
      = echoed st @ concat (map (\<lambda>p. echo_of (received p)) (passes_run ps))"
    by (rule serve_echoed [OF assms])
qed

theorem reflector_echoes_witness:
  "running listening
   \<and> echoed (reflect listening (Datagram probe20 (''10.0.0.2'', 40000)))
       = [(probe20, (''10.0.0.2'', 40000))]
   \<and> echoed (reflect listening (Datagram (take 10 probe20) (''10.0.0.2'', 40000))) = []
   \<and> echoed (reflect (signal_handler listening) (Datagram probe20 (''10.0.0.3'', 40001)))
       = [(probe20, (''10.0.0.3'', 40001))]
   \<and> echoed (serve listening sample_passes)
       = [(probe20, (''10.0.0.2'', 40000)), (probe20, (''10.0.0.3'', 40001))]"
proof -
  have r: "running listening" by (simp add: listening_def)
  have l: "length probe20 = 20" by (simp add: probe20_def)
  from reflector_echoes [OF r, of probe20 "(''10.0.0.2'', 40000)" sample_passes]
       reflector_echoes [OF r, of "take 10 probe20" "(''10.0.0.2'', 40000)" sample_passes]
       reflector_echoes [OF r, of probe20 "(''10.0.0.3'', 40001)" sample_passes]
       r l
  show ?thesis by (simp add: echo_of_def listening_def sample_passes_def)
qed

end
